theory Spec2Isabelle
  imports Main
begin

section \<open>Python results and strings\<close>

text \<open>
  The module \<^verbatim>\<open>pypath/inputs/kegg_api.py\<close> is embedded function by function. A Python
  exception is a value \<open>Inl e\<close> of the result type; a returned value is \<open>Inr v\<close>.
  Names keep those of the source without the leading underscore.
\<close>

datatype error = TypeError | NameError | KeyError | AttributeError | IndexError | ValueError

definition and_then :: "error + 'a \<Rightarrow> ('a \<Rightarrow> error + 'b) \<Rightarrow> error + 'b" where
  "and_then m f = (case m of Inl e \<Rightarrow> Inl e | Inr x \<Rightarrow> f x)"

text \<open>\<^verbatim>\<open>xs[i]\<close> for a non-negative index: \<^verbatim>\<open>IndexError\<close> out of range.\<close>

definition item :: "'a list \<Rightarrow> nat \<Rightarrow> error + 'a" where
  "item xs i = (if i < length xs then Inr (xs ! i) else Inl IndexError)"

text \<open>\<^verbatim>\<open>xs[-1]\<close>.\<close>

definition last_item :: "'a list \<Rightarrow> error + 'a" where
  "last_item xs = (if xs = [] then Inl IndexError else Inr (last xs))"

text \<open>\<^verbatim>\<open>s.split(sep)\<close> for a one-character separator: never an empty list.\<close>

fun split_on :: "char \<Rightarrow> string \<Rightarrow> string list" where
  "split_on sep [] = [[]]"
| "split_on sep (c # cs) =
     (if c = sep then [] # split_on sep cs
      else (case split_on sep cs of
              [] \<Rightarrow> [[c]]
            | w # ws \<Rightarrow> (c # w) # ws))"

text \<open>\<^verbatim>\<open>sep.join(xs)\<close>.\<close>

fun join_str :: "string \<Rightarrow> string list \<Rightarrow> string" where
  "join_str sep [] = []"
| "join_str sep [x] = x"
| "join_str sep (x # y # ys) = x @ sep @ join_str sep (y # ys)"

text \<open>\<^verbatim>\<open>s.strip(' ')\<close>.\<close>

definition strip_spaces :: "string \<Rightarrow> string" where
  "strip_spaces s =
     rev (dropWhile (\<lambda>c. c = CHR '' '') (rev (dropWhile (\<lambda>c. c = CHR '' '') s)))"

text \<open>
  The class \<^verbatim>\<open>\d\<close> on the characters of this model. A \<open>char\<close> is a code point below
  256, and the only Unicode decimal digits there are \<^verbatim>\<open>0\<close> to \<^verbatim>\<open>9\<close>; a Python string
  with a character above U+00FF is outside the model's strings.
\<close>

definition is_digit :: "char \<Rightarrow> bool" where
  "is_digit c = (c \<in> set ''0123456789'')"

text \<open>
  \<^verbatim>\<open>re.compile(r'\d+').search(s)\<close>: the leftmost longest run of digits, \<open>None\<close> when
  the string has no digit.
\<close>

definition re_pathway_search :: "string \<Rightarrow> string option" where
  "re_pathway_search s =
     (case dropWhile (\<lambda>c. \<not> is_digit c) s of
        [] \<Rightarrow> None
      | d # ds \<Rightarrow> Some (takeWhile is_digit (d # ds)))"

section \<open>Entity caches: the classes below \<^verbatim>\<open>_KeggDatabase\<close>\<close>

type_synonym row = "string list"

datatype kind = Organism | Gene | Pathway | Disease | Drug | Compound

text \<open>
  A cache value is the string \<^verbatim>\<open>proc_value\<close> returns; \<^verbatim>\<open>_Organism.proc_value\<close>
  returns a pair of fields.
\<close>

datatype cache_value = Name string | Fields string string

text \<open>
  \<^verbatim>\<open>proc_key\<close> of each class. \<^verbatim>\<open>_Disease\<close>, \<^verbatim>\<open>_Drug\<close> and \<^verbatim>\<open>_Compound\<close> inherit
  it from \<^verbatim>\<open>_SplitDatabase\<close> (\<^verbatim>\<open>entry[0].split(':')[1]\<close>). \<^verbatim>\<open>_Pathway\<close> calls
  \<^verbatim>\<open>.group()\<close> on the search result, which is \<^verbatim>\<open>None\<close> when nothing matched.
\<close>

fun proc_key :: "kind \<Rightarrow> row \<Rightarrow> error + string" where
  "proc_key Organism entry = item entry 1"
| "proc_key Gene entry = item entry 0"
| "proc_key Pathway entry =
     and_then (item entry 0) (\<lambda>e0.
       case re_pathway_search e0 of
         None \<Rightarrow> Inl AttributeError
       | Some digits \<Rightarrow> Inr (''map'' @ digits))"
| "proc_key Disease entry = and_then (item entry 0) (\<lambda>e0. item (split_on CHR '':'' e0) 1)"
| "proc_key Drug entry = and_then (item entry 0) (\<lambda>e0. item (split_on CHR '':'' e0) 1)"
| "proc_key Compound entry = and_then (item entry 0) (\<lambda>e0. item (split_on CHR '':'' e0) 1)"

text \<open>
  \<^verbatim>\<open>proc_value\<close> of each class; for a gene,
  \<^verbatim>\<open>entry[-1].rsplit(';', maxsplit = 1)[-1].strip(' ')\<close> is the text after the last
  semicolon of the last field, without surrounding spaces.
\<close>

fun proc_value :: "kind \<Rightarrow> row \<Rightarrow> error + cache_value" where
  "proc_value Organism entry =
     and_then (item entry 0) (\<lambda>e0. and_then (item entry 2) (\<lambda>e2. Inr (Fields e0 e2)))"
| "proc_value Gene entry =
     and_then (last_item entry) (\<lambda>e. Inr (Name (strip_spaces (last (split_on CHR '';'' e)))))"
| "proc_value Pathway entry = and_then (item entry 1) (\<lambda>e1. Inr (Name e1))"
| "proc_value Disease entry = and_then (item entry 1) (\<lambda>e1. Inr (Name e1))"
| "proc_value Drug entry = and_then (item entry 1) (\<lambda>e1. Inr (Name e1))"
| "proc_value Compound entry = and_then (item entry 1) (\<lambda>e1. Inr (Name e1))"

text \<open>
  The dict comprehension of \<^verbatim>\<open>load\<close>,
  \<^verbatim>\<open>{self.proc_key(entry): self.proc_value(entry) for entry in entries}\<close>: rows in
  order, key before value, a later row replacing an earlier one with the same key, the
  first exception ending the build.
\<close>

fun build_data :: "kind \<Rightarrow> row list \<Rightarrow> (string \<rightharpoonup> cache_value) \<Rightarrow> error + (string \<rightharpoonup> cache_value)" where
  "build_data k [] acc = Inr acc"
| "build_data k (entry # entries) acc =
     and_then (proc_key k entry) (\<lambda>key.
       and_then (proc_value k entry) (\<lambda>v.
         build_data k entries (acc(key \<mapsto> v))))"

text \<open>\<^verbatim>\<open>_KeggDatabase.get(index, default)\<close> is \<^verbatim>\<open>self._data.get(index, default)\<close>.\<close>

definition KeggDatabase_get ::
  "(string \<rightharpoonup> cache_value) \<Rightarrow> string \<Rightarrow> cache_value option \<Rightarrow> cache_value option" where
  "KeggDatabase_get data index dflt =
     (case data index of Some v \<Rightarrow> Some v | None \<Rightarrow> dflt)"

section \<open>The raw client \<^verbatim>\<open>_kegg_general\<close>\<close>

text \<open>
  Values passed between the functions: \<^verbatim>\<open>None\<close>, a string, a list of strings, a truth
  value.
\<close>

datatype pyval = PNone | PStr string | PList "string list" | PBool bool

definition truthy :: "pyval \<Rightarrow> bool" where
  "truthy v = (case v of PNone \<Rightarrow> False | PStr s \<Rightarrow> s \<noteq> [] | PList xs \<Rightarrow> xs \<noteq> [] | PBool b \<Rightarrow> b)"

text \<open>
  \<^verbatim>\<open>_kegg_general\<close> is declared \<^verbatim>\<open>async def\<close>: a call binds the arguments, which needs
  at least the operation, and returns a coroutine object without running the body. No
  caller awaits the object, so lines 246 to 256 never run in this module and the
  transport \<^verbatim>\<open>curl.Curl\<close> is never consulted (run, line 246 would add the tuple
  \<^verbatim>\<open>arguments\<close> to a list, a \<^verbatim>\<open>TypeError\<close>, before the transport object is made).
  Iterating the object (\<^verbatim>\<open>for ... in result\<close>, \<^verbatim>\<open>itertools.chain\<close>) raises
  \<^verbatim>\<open>TypeError\<close>.
\<close>

datatype coroutine = Coroutine pyval "pyval list"

definition iterate :: "coroutine \<Rightarrow> error + row list" where
  "iterate c = Inl TypeError"

text \<open>
  The session: \<open>requests\<close> lists, oldest first, the argument list of every call of
  \<^verbatim>\<open>_kegg_general\<close> the program has evaluated (whether or not Python could bind it);
  \<open>shared_table\<close> is the class attribute \<^verbatim>\<open>_ConversionTable._table\<close>, one dict for all
  subclasses.
\<close>

record session =
  requests :: "pyval list list"
  shared_table :: "string \<rightharpoonup> string set"

definition kegg_general :: "pyval list \<Rightarrow> session \<Rightarrow> (error + coroutine) \<times> session" where
  "kegg_general args st =
     (case args of
        [] \<Rightarrow> (Inl TypeError, st\<lparr>requests := requests st @ [args]\<rparr>)
      | operation # arguments \<Rightarrow>
          (Inr (Coroutine operation arguments), st\<lparr>requests := requests st @ [args]\<rparr>))"

text \<open>
  The calls among \<open>requests\<close> that Python could bind, each of which returned a
  coroutine: the fetches the program asked the raw client for.
\<close>

definition bound_calls :: "session \<Rightarrow> pyval list list" where
  "bound_calls st = filter (\<lambda>args. args \<noteq> []) (requests st)"

section \<open>\<^verbatim>\<open>_kegg_list\<close> and \<^verbatim>\<open>load\<close>\<close>

text \<open>
  \<^verbatim>\<open>common.to_list\<close> belongs to another module; every function that uses it takes it as
  the parameter \<open>to_list\<close>.

  The argument list of \<^verbatim>\<open>_kegg_list\<close>, lines 278 to 282. A conditional expression binds
  weaker than \<^verbatim>\<open>+\<close>, so the expression reads
  \<^verbatim>\<open>(['list', database] + to_list(option)) if database == 'brite' else
  (([] + to_list(organism)) if database == 'pathway' else [])\<close>.
\<close>

definition kegg_list_args :: "(pyval \<Rightarrow> string list) \<Rightarrow> string \<Rightarrow> pyval \<Rightarrow> pyval \<Rightarrow> pyval list" where
  "kegg_list_args to_list database option organism =
     (if database = ''brite'' then map PStr ([''list'', database] @ to_list option)
      else if database = ''pathway'' then map PStr ([] @ to_list organism)
      else [])"

definition kegg_list ::
  "(pyval \<Rightarrow> string list) \<Rightarrow> string \<Rightarrow> pyval \<Rightarrow> pyval \<Rightarrow> session \<Rightarrow> (error + coroutine) \<times> session" where
  "kegg_list to_list database option organism st =
     kegg_general (kegg_list_args to_list database option organism) st"

text \<open>\<^verbatim>\<open>_query_args\<close> of each class; \<^verbatim>\<open>_Gene\<close> inherits \<^verbatim>\<open>None\<close>.\<close>

fun query_args :: "kind \<Rightarrow> pyval" where
  "query_args Organism = PStr ''organism''"
| "query_args Gene = PNone"
| "query_args Pathway = PStr ''pathway''"
| "query_args Disease = PStr ''disease''"
| "query_args Drug = PStr ''drug''"
| "query_args Compound = PStr ''compound''"

text \<open>
  \<^verbatim>\<open>load(self, *args)\<close>: the call \<^verbatim>\<open>_kegg_list(*common.to_list(self._query_args), *args)\<close>
  binds up to three positional arguments (\<^verbatim>\<open>database\<close> is required), the rows are
  iterated and \<^verbatim>\<open>self._data\<close> is bound to the new dict, which is the value returned here.
\<close>

definition load ::
  "(pyval \<Rightarrow> string list) \<Rightarrow> kind \<Rightarrow> string list \<Rightarrow> session \<Rightarrow> (error + (string \<rightharpoonup> cache_value)) \<times> session" where
  "load to_list k args st =
     (case (case to_list (query_args k) @ args of
              [database] \<Rightarrow> kegg_list to_list database PNone PNone st
            | [database, option] \<Rightarrow> kegg_list to_list database (PStr option) PNone st
            | [database, option, organism] \<Rightarrow> kegg_list to_list database (PStr option) (PStr organism) st
            | _ \<Rightarrow> (Inl TypeError, st)) of
        (Inl e, st') \<Rightarrow> (Inl e, st')
      | (Inr entries, st') \<Rightarrow>
          (and_then (iterate entries) (\<lambda>rows. build_data k rows Map.empty), st'))"

text \<open>
  Instantiation. \<^verbatim>\<open>_KeggDatabase\<close> declares \<^verbatim>\<open>__init__\<close>, \<^verbatim>\<open>proc_key\<close>, \<^verbatim>\<open>proc_value\<close>
  and \<^verbatim>\<open>load\<close> abstract; Python refuses to instantiate a class that leaves one of them
  without an override. \<open>overrides\<close> lists what each class (with \<^verbatim>\<open>_SplitDatabase\<close> for
  the three split kinds) defines.
\<close>

datatype member = Init | Proc_key | Proc_value | Load

fun overrides :: "kind \<Rightarrow> member list" where
  "overrides Organism = [Proc_value, Proc_key]"
| "overrides Gene = [Init, Proc_key, Proc_value]"
| "overrides Pathway = [Proc_value, Proc_key]"
| "overrides Disease = [Proc_key, Proc_value]"
| "overrides Drug = [Proc_key, Proc_value]"
| "overrides Compound = [Proc_key, Proc_value]"

definition abstract_methods :: "kind \<Rightarrow> member list" where
  "abstract_methods k = filter (\<lambda>m. m \<notin> set (overrides k)) [Init, Proc_key, Proc_value, Load]"

text \<open>
  \<^verbatim>\<open>cls(*args)\<close>: \<^verbatim>\<open>_Gene.__init__\<close> takes exactly the organism and passes it to
  \<^verbatim>\<open>load\<close>; the other classes pass whatever they get.
\<close>

definition new_database ::
  "(pyval \<Rightarrow> string list) \<Rightarrow> kind \<Rightarrow> string list \<Rightarrow> session \<Rightarrow> (error + (string \<rightharpoonup> cache_value)) \<times> session" where
  "new_database to_list k args st =
     (if abstract_methods k \<noteq> [] then (Inl TypeError, st)
      else if k = Gene \<and> length args \<noteq> 1 then (Inl TypeError, st)
      else load to_list k args st)"

section \<open>Conversion tables\<close>

text \<open>\<^verbatim>\<open>ref.split(':')[1] if flag else ref\<close>, lines 299 and 300.\<close>

definition split_ref :: "bool \<Rightarrow> string \<Rightarrow> error + string" where
  "split_ref flag ref = (if flag then item (split_on CHR '':'' ref) 1 else Inr ref)"

text \<open>
  The loop of \<^verbatim>\<open>_kegg_conv\<close>, lines 295 to 303, over the rows it is given:
  \<^verbatim>\<open>for source, target in result\<close> unpacks a row of exactly two fields
  (\<^verbatim>\<open>ValueError\<close> otherwise) and \<^verbatim>\<open>conversion_table[source].add(target)\<close> adds to the
  set of a \<^verbatim>\<open>defaultdict(set)\<close>.
\<close>

fun conv_loop ::
  "bool \<Rightarrow> bool \<Rightarrow> row list \<Rightarrow> (string \<rightharpoonup> string set) \<Rightarrow> error + (string \<rightharpoonup> string set)" where
  "conv_loop source_split target_split [] table = Inr table"
| "conv_loop source_split target_split (r # rs) table =
     (case r of
        [source, target] \<Rightarrow>
          and_then (split_ref source_split source) (\<lambda>source'.
            and_then (split_ref target_split target) (\<lambda>target'.
              conv_loop source_split target_split rs
                (table(source' \<mapsto> insert target' (case table source' of None \<Rightarrow> {} | Some ts \<Rightarrow> ts)))))
      | _ \<Rightarrow> Inl ValueError)"

definition kegg_conv ::
  "string \<Rightarrow> string \<Rightarrow> bool \<Rightarrow> bool \<Rightarrow> session \<Rightarrow> (error + (string \<rightharpoonup> string set)) \<times> session" where
  "kegg_conv source_db target_db source_split target_split st =
     (case kegg_general [PStr ''conv'', PStr target_db, PStr source_db] st of
        (Inl e, st') \<Rightarrow> (Inl e, st')
      | (Inr result, st') \<Rightarrow>
          (and_then (iterate result) (\<lambda>rows. conv_loop source_split target_split rows Map.empty), st'))"

text \<open>
  \<^verbatim>\<open>_ConversionTable.get\<close>: \<^verbatim>\<open>self._table[index]\<close>, and \<^verbatim>\<open>None\<close> on \<^verbatim>\<open>KeyError\<close>.
\<close>

definition ConversionTable_get :: "(string \<rightharpoonup> string set) \<Rightarrow> string \<Rightarrow> string set option" where
  "ConversionTable_get table index = (case table index of Some ts \<Rightarrow> Some ts | None \<Rightarrow> None)"

datatype conversion = KeggToNcbi | NcbiToKegg | KeggToUniprot | UniprotToKegg | KeggToChebi | ChebiToKegg

text \<open>The subclasses of \<^verbatim>\<open>_OrgTable\<close>.\<close>

fun org_table :: "conversion \<Rightarrow> bool" where
  "org_table KeggToChebi = False"
| "org_table ChebiToKegg = False"
| "org_table c = True"

text \<open>The arguments each \<^verbatim>\<open>download_table\<close> gives \<^verbatim>\<open>_kegg_conv\<close>.\<close>

fun conv_arguments :: "conversion \<Rightarrow> string \<Rightarrow> string \<times> string \<times> bool \<times> bool" where
  "conv_arguments KeggToNcbi organism = (organism, ''ncbi-geneid'', False, True)"
| "conv_arguments NcbiToKegg organism = (''ncbi-geneid'', organism, True, False)"
| "conv_arguments KeggToUniprot organism = (organism, ''uniprot'', False, True)"
| "conv_arguments UniprotToKegg organism = (''uniprot'', organism, True, False)"
| "conv_arguments KeggToChebi organism = (''drug'', ''chebi'', True, True)"
| "conv_arguments ChebiToKegg organism = (''chebi'', ''drug'', True, True)"

text \<open>
  \<^verbatim>\<open>download_table\<close>: an organism table writes into the shared class attribute
  (\<^verbatim>\<open>self._table.update(table)\<close>) and binds nothing on the instance; a ChEBI table binds
  the instance attribute (\<^verbatim>\<open>self._table = table\<close>). The value returned is the instance
  attribute, if one was bound.
\<close>

definition download_table ::
  "conversion \<Rightarrow> string \<Rightarrow> session \<Rightarrow> (error + (string \<rightharpoonup> string set) option) \<times> session" where
  "download_table c organism st =
     (case conv_arguments c organism of
        (source_db, target_db, source_split, target_split) \<Rightarrow>
          (case kegg_conv source_db target_db source_split target_split st of
             (Inl e, st') \<Rightarrow> (Inl e, st')
           | (Inr table, st') \<Rightarrow>
               if org_table c then (Inr None, st'\<lparr>shared_table := shared_table st' ++ table\<rparr>)
               else (Inr (Some table), st')))"

text \<open>
  \<^verbatim>\<open>cls(*args)\<close> for a conversion table: \<^verbatim>\<open>_OrgTable.__init__(self, organism=None)\<close>
  downloads only when an organism is given; \<^verbatim>\<open>_ConversionTable.__init__(self)\<close> takes
  no argument.
\<close>

definition new_conversion ::
  "conversion \<Rightarrow> string list \<Rightarrow> session \<Rightarrow> (error + (string \<rightharpoonup> string set) option) \<times> session" where
  "new_conversion c args st =
     (if org_table c then
        (case args of
           [] \<Rightarrow> (Inr None, st)
         | [organism] \<Rightarrow> download_table c organism st
         | _ \<Rightarrow> (Inl TypeError, st))
      else
        (case args of
           [] \<Rightarrow> download_table c [] st
         | _ \<Rightarrow> (Inl TypeError, st)))"

section \<open>Relation resolution: \<^verbatim>\<open>_kegg_link\<close> and \<^verbatim>\<open>_kegg_relations\<close>\<close>

definition kegg_link :: "pyval \<Rightarrow> pyval \<Rightarrow> session \<Rightarrow> (error + coroutine) \<times> session" where
  "kegg_link source_db target_db st = kegg_general [PStr ''link'', target_db, source_db] st"

text \<open>The named tuple \<^verbatim>\<open>KeggEntry\<close>; a cross-reference field is \<^verbatim>\<open>()\<close> or what a table's \<^verbatim>\<open>get\<close> returned.\<close>

datatype xrefs = Empty_tuple | From_table "string set option"

record kegg_entry =
  entry_id :: string
  entry_name :: "cache_value option"
  entry_type :: string
  ncbi_gene_ids :: xrefs
  uniprot_ids :: xrefs
  chebi_ids :: xrefs

datatype cache = Database "string \<rightharpoonup> cache_value" | Table "string \<rightharpoonup> string set"

text \<open>
  \<^verbatim>\<open>get_data(name, cls_prefix)\<close>. For a name not yet in \<^verbatim>\<open>data\<close> the class is looked up
  with \<^verbatim>\<open>locals()[cls]\<close>: the local namespace of \<^verbatim>\<open>get_data\<close> holds \<^verbatim>\<open>name\<close>,
  \<^verbatim>\<open>cls_prefix\<close>, \<^verbatim>\<open>cls\<close>, \<^verbatim>\<open>data\<close> and \<^verbatim>\<open>l_organism\<close>, the classes are module-level
  names, and the class name in \<^verbatim>\<open>cls\<close> starts with an underscore, so the lookup raises
  \<^verbatim>\<open>KeyError\<close> and \<^verbatim>\<open>data\<close> is never written.
\<close>

definition get_data :: "(string \<rightharpoonup> cache) \<Rightarrow> string \<Rightarrow> string \<Rightarrow> error + cache" where
  "get_data data name cls_prefix = (case data name of Some d \<Rightarrow> Inr d | None \<Rightarrow> Inl KeyError)"

text \<open>
  \<^verbatim>\<open>process(entry, type_)\<close>: its first statement calls \<^verbatim>\<open>db(type_).handle(entry)\<close>, and
  no class of the module defines \<^verbatim>\<open>handle\<close>, so past \<^verbatim>\<open>db(type_)\<close> the body ends with
  \<^verbatim>\<open>AttributeError\<close>; lines 396 to 408 never run.
\<close>

definition process :: "(string \<rightharpoonup> cache) \<Rightarrow> string \<Rightarrow> string \<Rightarrow> error + kegg_entry" where
  "process data entry type' = and_then (get_data data type' []) (\<lambda>d. Inl AttributeError)"

text \<open>A call of \<^verbatim>\<open>process\<close> with positional arguments binds \<^verbatim>\<open>entry\<close> and \<^verbatim>\<open>type_\<close>, both required.\<close>

definition process_call :: "(string \<rightharpoonup> cache) \<Rightarrow> string list \<Rightarrow> error + kegg_entry" where
  "process_call data args =
     (case args of [entry, type'] \<Rightarrow> process data entry type' | _ \<Rightarrow> Inl TypeError)"

text \<open>Line 413: \<^verbatim>\<open>[(process(e[0]), process(e[1])) for e in entries]\<close>.\<close>

fun link_pairs :: "(string \<rightharpoonup> cache) \<Rightarrow> row list \<Rightarrow> error + (kegg_entry \<times> kegg_entry) list" where
  "link_pairs data [] = Inr []"
| "link_pairs data (e # es) =
     and_then (item e 0) (\<lambda>e0.
       and_then (process_call data [e0]) (\<lambda>source.
         and_then (item e 1) (\<lambda>e1.
           and_then (process_call data [e1]) (\<lambda>target.
             and_then (link_pairs data es) (\<lambda>pairs. Inr ((source, target) # pairs))))))"

text \<open>
  \<^verbatim>\<open>_kegg_relations\<close>: \<^verbatim>\<open>data\<close> starts empty, the link arguments put the organism in
  place of \<^verbatim>\<open>'gene'\<close>, and the comprehension iterates what \<^verbatim>\<open>_kegg_link\<close> returned.
  (\<^verbatim>\<open>l_organism\<close> is used only by the constructor call that \<^verbatim>\<open>get_data\<close> never reaches.)
\<close>

definition kegg_relations ::
  "string \<Rightarrow> string \<Rightarrow> pyval \<Rightarrow> session \<Rightarrow> (error + (kegg_entry \<times> kegg_entry) list) \<times> session" where
  "kegg_relations source_db target_db organism st =
     (case kegg_link (if source_db = ''gene'' then organism else PStr source_db)
                     (if target_db = ''gene'' then organism else PStr target_db) st of
        (Inl e, st') \<Rightarrow> (Inl e, st')
      | (Inr entries, st') \<Rightarrow> (and_then (iterate entries) (link_pairs Map.empty), st'))"

definition gene_to_pathway :: "pyval \<Rightarrow> session \<Rightarrow> (error + (kegg_entry \<times> kegg_entry) list) \<times> session" where
  "gene_to_pathway organism st = kegg_relations ''gene'' ''pathway'' organism st"

definition pathway_to_gene :: "pyval \<Rightarrow> session \<Rightarrow> (error + (kegg_entry \<times> kegg_entry) list) \<times> session" where
  "pathway_to_gene organism st = kegg_relations ''pathway'' ''gene'' organism st"

section \<open>Drug interactions: \<^verbatim>\<open>_kegg_ddi\<close> and \<^verbatim>\<open>drug_to_drug\<close>\<close>

text \<open>
  \<^verbatim>\<open>_kegg_ddi_sync\<close>: the generator is unpacked into \<^verbatim>\<open>itertools.chain\<close>, so every
  \<^verbatim>\<open>_kegg_general('ddi', drug_id)\<close> call is made first (\<open>ddi_calls\<close>), then \<^verbatim>\<open>list\<close>
  iterates the objects one after the other (\<open>chain\<close>).
\<close>

fun ddi_calls :: "string list \<Rightarrow> session \<Rightarrow> (error + coroutine list) \<times> session" where
  "ddi_calls [] st = (Inr [], st)"
| "ddi_calls (drug_id # drug_ids) st =
     (case kegg_general [PStr ''ddi'', PStr drug_id] st of
        (Inl e, st') \<Rightarrow> (Inl e, st')
      | (Inr c, st') \<Rightarrow>
          (case ddi_calls drug_ids st' of
             (Inl e, st'') \<Rightarrow> (Inl e, st'')
           | (Inr cs, st'') \<Rightarrow> (Inr (c # cs), st'')))"

fun chain :: "coroutine list \<Rightarrow> error + row list" where
  "chain [] = Inr []"
| "chain (c # cs) =
     and_then (iterate c) (\<lambda>rows. and_then (chain cs) (\<lambda>more. Inr (rows @ more)))"

definition kegg_ddi_sync ::
  "(pyval \<Rightarrow> string list) \<Rightarrow> pyval \<Rightarrow> session \<Rightarrow> (error + row list) \<times> session" where
  "kegg_ddi_sync to_list drug_ids st =
     (case ddi_calls (to_list drug_ids) st of
        (Inl e, st') \<Rightarrow> (Inl e, st')
      | (Inr cs, st') \<Rightarrow> (chain cs, st'))"

text \<open>
  \<^verbatim>\<open>_kegg_ddi(drug_ids, async_)\<close>: the identifiers are joined with \<^verbatim>\<open>+\<close> whatever the
  mode. The asynchronous branch hands \<^verbatim>\<open>_kegg_ddi_async\<close> to a thread pool and an event
  loop; it is the parameter \<open>run_async\<close>.
\<close>

definition kegg_ddi ::
  "(pyval \<Rightarrow> string list) \<Rightarrow> (string \<Rightarrow> session \<Rightarrow> (error + row list) \<times> session) \<Rightarrow>
   pyval \<Rightarrow> bool \<Rightarrow> session \<Rightarrow> (error + row list) \<times> session" where
  "kegg_ddi to_list run_async drug_ids async' st =
     (let joined = join_str ''+'' (to_list drug_ids) in
      if async' then run_async joined st
      else kegg_ddi_sync to_list (PStr joined) st)"

text \<open>
  A call of \<^verbatim>\<open>_kegg_ddi\<close> with one positional argument and keyword arguments: the only
  keyword the signature still accepts is \<^verbatim>\<open>async_\<close>; any other is a \<^verbatim>\<open>TypeError\<close>.
\<close>

definition kegg_ddi_call ::
  "(pyval \<Rightarrow> string list) \<Rightarrow> (string \<Rightarrow> session \<Rightarrow> (error + row list) \<times> session) \<Rightarrow>
   pyval \<Rightarrow> (string \<times> pyval) list \<Rightarrow> session \<Rightarrow> (error + row list) \<times> session" where
  "kegg_ddi_call to_list run_async drug_ids keywords st =
     (if list_all (\<lambda>kw. fst kw = ''async_'') keywords then
        kegg_ddi to_list run_async drug_ids
          (case map_of keywords ''async_'' of Some v \<Rightarrow> truthy v | None \<Rightarrow> False) st
      else (Inl TypeError, st))"

text \<open>Line 159, \<^verbatim>\<open>join = join and drugs\<close>, and line 160, \<^verbatim>\<open>asynchronous = not drugs or asynchronous\<close>.\<close>

definition join_flag :: "bool \<Rightarrow> pyval \<Rightarrow> pyval" where
  "join_flag join drugs = (if join then drugs else PBool join)"

definition asynchronous_flag :: "pyval \<Rightarrow> bool \<Rightarrow> bool" where
  "asynchronous_flag drugs asynchronous = (if truthy drugs then asynchronous else True)"

text \<open>
  Lines 159 to 162 of \<^verbatim>\<open>drug_to_drug\<close>. With no drugs given, line 161 calls
  \<^verbatim>\<open>entry_dbs['drug'].get_data()\<close>, a method no class of the module has
  (\<^verbatim>\<open>AttributeError\<close>). Line 162 calls \<^verbatim>\<open>_kegg_ddi\<close> with the keywords \<^verbatim>\<open>join\<close> and
  \<^verbatim>\<open>asynchronous\<close>.
\<close>

definition ddi_entries ::
  "(pyval \<Rightarrow> string list) \<Rightarrow> (string \<Rightarrow> session \<Rightarrow> (error + row list) \<times> session) \<Rightarrow>
   pyval \<Rightarrow> bool \<Rightarrow> bool \<Rightarrow> session \<Rightarrow> (error + row list) \<times> session" where
  "ddi_entries to_list run_async drugs join asynchronous st =
     (let join' = join_flag join drugs;
          asynchronous' = asynchronous_flag drugs asynchronous
      in if truthy drugs then
           kegg_ddi_call to_list run_async drugs
             [(''join'', join'), (''asynchronous'', PBool asynchronous')] st
         else (Inl AttributeError, st))"

text \<open>\<^verbatim>\<open>c.lower()\<close> on ASCII letters; no other character lowers to \<^verbatim>\<open>d\<close> or \<^verbatim>\<open>c\<close>.\<close>

definition lower :: "char \<Rightarrow> char" where
  "lower c = (if c \<in> set ''ABCDEFGHIJKLMNOPQRSTUVWXYZ'' then char_of (of_char c + (32::nat)) else c)"

text \<open>\<^verbatim>\<open>entry_types.get(c, None)\<close> for \<^verbatim>\<open>entry_types = {'d': 'drug', 'c': 'compound'}\<close>.\<close>

definition entry_types :: "char \<Rightarrow> string option" where
  "entry_types c =
     (if c = CHR ''d'' then Some ''drug'' else if c = CHR ''c'' then Some ''compound'' else None)"

text \<open>Line 170, \<^verbatim>\<open>entry_types.get(entry[i][0].lower(), None)\<close>, and line 171, \<^verbatim>\<open>entry[i].split(':')[-1]\<close>.\<close>

definition partner_type :: "string \<Rightarrow> error + string option" where
  "partner_type field = and_then (item field 0) (\<lambda>c. Inr (entry_types (lower c)))"

definition partner_id :: "string \<Rightarrow> string" where
  "partner_id field = last (split_on CHR '':'' field)"

record partner =
  partner_kind :: "string option"
  partner_ident :: string
  partner_name :: "cache_value option"

text \<open>
  One item of the \<^verbatim>\<open>partners\<close> dict, lines 169 to 173. The values are evaluated in
  order: type, id, name. The name is \<^verbatim>\<open>entry_dbs[entry_type].get(entry_id, None)\<close>, and
  \<^verbatim>\<open>entry_type\<close> is bound nowhere (no parameter, local, module-level name or builtin),
  so the item ends with \<^verbatim>\<open>NameError\<close>.
\<close>

definition partner_of :: "row \<Rightarrow> nat \<Rightarrow> error + partner" where
  "partner_of entry i =
     and_then (item entry i) (\<lambda>field.
       and_then (partner_type field) (\<lambda>kind.
         let ident = partner_id field in Inl NameError))"

text \<open>Lines 178 to 180: the label field split on commas, and the two memberships.\<close>

definition labels_of :: "string \<Rightarrow> bool \<times> bool" where
  "labels_of label_field =
     (let labels = split_on CHR '','' label_field
      in (''CI'' \<in> set labels, ''P'' \<in> set labels))"

record interaction =
  interaction_type :: "string option"
  interaction_id :: string
  interaction_name :: "cache_value option"
  contraindication :: bool
  precaution :: bool

record profile =
  profile_type :: "string option"
  profile_name :: "cache_value option"
  interactions :: "interaction list"

text \<open>
  One pass of the loop, lines 166 to 193. After the partners and the labels the pass
  calls \<^verbatim>\<open>.append\<close> on \<^verbatim>\<open>interactions[disease_id]['interactions']\<close>, which the factory
  of line 155 makes a \<^verbatim>\<open>defaultdict(list)\<close>: it has no \<^verbatim>\<open>append\<close> (\<^verbatim>\<open>AttributeError\<close>),
  and lines 192 and 193 never run.
\<close>

definition ddi_entry :: "row \<Rightarrow> (string \<rightharpoonup> profile) \<Rightarrow> error + (string \<rightharpoonup> profile)" where
  "ddi_entry entry profiles =
     and_then (partner_of entry 0) (\<lambda>source.
       and_then (partner_of entry 1) (\<lambda>target.
         and_then (item entry 2) (\<lambda>label_field.
           let interaction =
                 \<lparr>interaction_type = partner_kind target,
                  interaction_id = partner_ident target,
                  interaction_name = partner_name target,
                  contraindication = fst (labels_of label_field),
                  precaution = snd (labels_of label_field)\<rparr>;
               disease_id = partner_ident source
           in Inl AttributeError)))"

fun ddi_loop :: "row list \<Rightarrow> (string \<rightharpoonup> profile) \<Rightarrow> error + (string \<rightharpoonup> profile)" where
  "ddi_loop [] profiles = Inr profiles"
| "ddi_loop (entry # entries) profiles =
     and_then (ddi_entry entry profiles) (\<lambda>profiles'. ddi_loop entries profiles')"

text \<open>
  \<^verbatim>\<open>drug_to_drug\<close>: line 152 instantiates \<^verbatim>\<open>_Drug\<close> and \<^verbatim>\<open>_Compound\<close>, then the entries
  are fetched and the loop runs over them.
\<close>

definition drug_to_drug ::
  "(pyval \<Rightarrow> string list) \<Rightarrow> (string \<Rightarrow> session \<Rightarrow> (error + row list) \<times> session) \<Rightarrow>
   pyval \<Rightarrow> bool \<Rightarrow> bool \<Rightarrow> session \<Rightarrow> (error + (string \<rightharpoonup> profile)) \<times> session" where
  "drug_to_drug to_list run_async drugs join asynchronous st =
     (case new_database to_list Drug [] st of
        (Inl e, st1) \<Rightarrow> (Inl e, st1)
      | (Inr drug_db, st1) \<Rightarrow>
          (case new_database to_list Compound [] st1 of
             (Inl e, st2) \<Rightarrow> (Inl e, st2)
           | (Inr compound_db, st2) \<Rightarrow>
               (case ddi_entries to_list run_async drugs join asynchronous st2 of
                  (Inl e, st3) \<Rightarrow> (Inl e, st3)
                | (Inr entries, st3) \<Rightarrow> (ddi_loop entries Map.empty, st3))))"

section \<open>Helper lemmas\<close>

lemma and_then_Inr: "and_then m f = Inr y \<longleftrightarrow> (\<exists>x. m = Inr x \<and> f x = Inr y)"
  by (cases m) (simp_all add: and_then_def)

text \<open>The model of \<^verbatim>\<open>split\<close> and \<^verbatim>\<open>join\<close>: joining the pieces gives the string back, and no piece holds the separator.\<close>

lemma split_on_not_Nil: "split_on sep s \<noteq> []"
  by (induction s) (auto split: list.splits)

lemma join_str_Cons_char: "join_str sep ((c # w) # ws) = c # join_str sep (w # ws)"
  by (cases ws) simp_all

lemma join_split_on: "join_str [sep] (split_on sep s) = s"
proof (induction s)
  case Nil
  then show ?case by simp
next
  case (Cons c cs)
  then show ?case
    using split_on_not_Nil [of sep cs]
    by (cases "split_on sep cs") (auto simp: join_str_Cons_char)
qed

lemma split_on_no_sep: "w \<in> set (split_on sep s) \<Longrightarrow> sep \<notin> set w"
  by (induction s arbitrary: w) (auto split: list.splits if_splits)

text \<open>The model of the search for \<^verbatim>\<open>\d+\<close>: the match is the leftmost run of digits, and it is maximal.\<close>

lemma re_pathway_search_spec:
  assumes "re_pathway_search s = Some d"
  shows "\<exists>pre post. s = pre @ d @ post \<and> (\<forall>c \<in> set pre. \<not> is_digit c) \<and> d \<noteq> [] \<and>
           (\<forall>c \<in> set d. is_digit c) \<and> (post = [] \<or> \<not> is_digit (hd post))"
proof -
  let ?pre = "takeWhile (\<lambda>c. \<not> is_digit c) s"
  let ?rest = "dropWhile (\<lambda>c. \<not> is_digit c) s"
  let ?post = "dropWhile is_digit ?rest"
  from assms obtain x xs where rest: "?rest = x # xs"
    by (cases ?rest) (simp_all add: re_pathway_search_def)
  with assms have d: "d = takeWhile is_digit ?rest"
    by (simp add: re_pathway_search_def)
  have "is_digit (hd ?rest)"
    using rest hd_dropWhile [of "\<lambda>c. \<not> is_digit c" s] by fastforce
  then have "d \<noteq> []" using rest d by auto
  moreover have "s = ?pre @ d @ ?post" by (simp add: d)
  moreover have "\<forall>c \<in> set ?pre. \<not> is_digit c" by (auto dest: set_takeWhileD)
  moreover have "\<forall>c \<in> set d. is_digit c" by (auto simp: d dest: set_takeWhileD)
  moreover have "?post = [] \<or> \<not> is_digit (hd ?post)"
    using hd_dropWhile [of is_digit ?rest] by blast
  ultimately show ?thesis by blast
qed

text \<open>Conversely, a run of digits that no digit precedes and no digit follows is the match.\<close>

lemma re_pathway_search_run:
  assumes "\<forall>c \<in> set pre. \<not> is_digit c" and "d \<noteq> []" and "\<forall>c \<in> set d. is_digit c"
    and "post = [] \<or> \<not> is_digit (hd post)"
  shows "re_pathway_search (pre @ d @ post) = Some d"
proof -
  from assms(2) obtain x xs where d: "d = x # xs" by (cases d) auto
  with assms(3) have x: "is_digit x" by simp
  have drop: "dropWhile (\<lambda>c. \<not> is_digit c) (pre @ d @ post) = d @ post"
    using assms(1) x by (simp add: d)
  have "takeWhile is_digit post = []"
    using assms(4) by (cases post) auto
  then have take: "takeWhile is_digit (d @ post) = d"
    using assms(3) by simp
  show ?thesis
    using drop take by (simp add: re_pathway_search_def d)
qed

lemma re_pathway_search_no_digit:
  assumes "\<forall>c \<in> set s. \<not> is_digit c"
  shows "re_pathway_search s = None"
proof (cases "dropWhile (\<lambda>c. \<not> is_digit c) s")
  case Nil
  then show ?thesis by (simp only: re_pathway_search_def list.case)
next
  case (Cons x xs)
  then have "x \<in> set s" and "is_digit x"
    using set_dropWhileD [of x "\<lambda>c. \<not> is_digit c" s]
      hd_dropWhile [of "\<lambda>c. \<not> is_digit c" s] by auto
  with assms show ?thesis by blast
qed

text \<open>The pathway key of any row: \<^verbatim>\<open>map\<close> before the digits found in the first field.\<close>

lemma pathway_key_general:
  "re_pathway_search e0 = Some d \<Longrightarrow> proc_key Pathway (e0 # others) = Inr (''map'' @ d)"
  by (simp add: and_then_def item_def)

lemma and_then_Inl_const: "and_then m (\<lambda>x. Inl e) \<noteq> Inr y"
  by (cases m) (simp_all add: and_then_def)

text \<open>Neither \<^verbatim>\<open>process\<close> nor the \<^verbatim>\<open>partners\<close> item ever returns a value.\<close>

lemma process_never_returns: "process data entry type' \<noteq> Inr r"
  by (simp add: process_def and_then_Inl_const)

lemma partner_of_never_returns: "partner_of entry i \<noteq> Inr p"
  by (auto simp: partner_of_def and_then_Inr)

text \<open>The argument list of \<^verbatim>\<open>_kegg_list\<close> for every database but \<^verbatim>\<open>brite\<close>.\<close>

lemma kegg_list_args_other:
  "database \<noteq> ''brite'' \<Longrightarrow>
   kegg_list_args to_list database option organism =
     (if database = ''pathway'' then map PStr (to_list organism) else [])"
  by (simp add: kegg_list_args_def)

text \<open>Any keyword other than \<^verbatim>\<open>async_\<close> makes the call of \<^verbatim>\<open>_kegg_ddi\<close> fail before it runs.\<close>

lemma kegg_ddi_call_other_keyword:
  "k \<noteq> ''async_'' \<Longrightarrow> (k, v) \<in> set keywords \<Longrightarrow>
   kegg_ddi_call to_list run_async drug_ids keywords st = (Inl TypeError, st)"
  by (auto simp: kegg_ddi_call_def list_all_iff)

text \<open>An identifier that is not a key of the cache gives the default, \<^verbatim>\<open>None\<close> at line 396; no exception.\<close>

lemma KeggDatabase_get_absent: "data index = None \<Longrightarrow> KeggDatabase_get data index None = None"
  by (simp add: KeggDatabase_get_def)

text \<open>No entity class can be instantiated, whatever the arguments.\<close>

lemma new_database_raises: "new_database to_list k args st = (Inl TypeError, st)"
  by (cases k) (simp_all add: new_database_def abstract_methods_def)

lemma drug_to_drug_raises: "drug_to_drug to_list run_async drugs join asynchronous st = (Inl TypeError, st)"
  by (simp add: drug_to_drug_def new_database_raises)

text \<open>Every relation resolution ends with \<^verbatim>\<open>TypeError\<close>, after one call of \<^verbatim>\<open>_kegg_general\<close>.\<close>

lemma kegg_relations_raises:
  "fst (kegg_relations source_db target_db organism st) = Inl TypeError"
  by (simp add: kegg_relations_def kegg_link_def kegg_general_def iterate_def and_then_def)

text \<open>
  The table after the loop of \<^verbatim>\<open>_kegg_conv\<close>, for any starting table: a key with
  matching rows holds what it held before together with the targets of those rows; any
  other key is unchanged.
\<close>

lemma conv_loop_lookup:
  "conv_loop ss ts rows acc = Inr table \<Longrightarrow>
   table index =
     (if \<exists>source target. [source, target] \<in> set rows \<and> split_ref ss source = Inr index
      then Some ((case acc index of None \<Rightarrow> {} | Some s \<Rightarrow> s) \<union>
                 {t'. \<exists>source target. [source, target] \<in> set rows \<and>
                        split_ref ss source = Inr index \<and> split_ref ts target = Inr t'})
      else acc index)"
proof (induction rows arbitrary: acc)
  case Nil
  then show ?case by simp
next
  case (Cons r rs)
  from Cons.prems obtain source target s' t' where
    r: "r = [source, target]" and s: "split_ref ss source = Inr s'" and t: "split_ref ts target = Inr t'"
    and rest: "conv_loop ss ts rs (acc(s' \<mapsto> insert t' (case acc s' of None \<Rightarrow> {} | Some x \<Rightarrow> x))) = Inr table"
    by (auto simp: and_then_Inr split: list.splits)
  note ih = Cons.IH [OF rest]
  show ?case
  proof (cases "s' = index")
    case True
    then show ?thesis using ih r s t
      by (auto split: option.splits)
  next
    case False
    then show ?thesis using ih r s t
      by (auto split: option.splits)
  qed
qed

section \<open>Relation resolution\<close>

text \<open>
  C1. What the code does with a link row: \<^verbatim>\<open>process\<close> takes an entry and a type, and
  line 413 calls it with the entry alone, so the first row of any link result ends the
  comprehension with an exception (\<^verbatim>\<open>TypeError\<close> for a row with a first field),
  whatever the caches hold: the comprehension returns only for an empty link result. No
  record is produced for either side of a row, and the whole resolution (here pathway
  to disease) raises.
\<close>

theorem link_row_raises_type_error:
  "link_pairs data [[''path:map99999'', ''ds:H00001'']] = Inl TypeError
   \<and> (link_pairs data rows = Inr pairs) = (rows = [] \<and> pairs = [])
   \<and> fst (kegg_relations ''pathway'' ''disease'' PNone st) = Inl TypeError"
proof -
  have "link_pairs data [[''path:map99999'', ''ds:H00001'']] = Inl TypeError"
    by (simp add: and_then_def item_def process_call_def)
  moreover have "(link_pairs data rows = Inr pairs) = (rows = [] \<and> pairs = [])"
    by (cases rows) (auto simp: and_then_Inr process_call_def)
  moreover have "fst (kegg_relations ''pathway'' ''disease'' PNone st) = Inl TypeError"
    by (simp add: kegg_relations_def kegg_link_def kegg_general_def iterate_def and_then_def)
  ultimately show ?thesis by blast
qed

text \<open>
  C8. What the code does for the gene and pathway round trip of organism \<^verbatim>\<open>hsa\<close>: each
  direction calls \<^verbatim>\<open>_kegg_general\<close> once, with the link arguments in reversed order
  (\<^verbatim>\<open>link, pathway, hsa\<close> and \<^verbatim>\<open>link, hsa, pathway\<close>), and then raises \<^verbatim>\<open>TypeError\<close>;
  neither direction returns a sequence of pairs.
\<close>

theorem gene_pathway_round_trip_raises:
  "gene_to_pathway (PStr ''hsa'') st =
     (Inl TypeError, st\<lparr>requests := requests st @ [[PStr ''link'', PStr ''pathway'', PStr ''hsa'']]\<rparr>)
   \<and> pathway_to_gene (PStr ''hsa'') st =
     (Inl TypeError, st\<lparr>requests := requests st @ [[PStr ''link'', PStr ''hsa'', PStr ''pathway'']]\<rparr>)"
  by (simp add: gene_to_pathway_def pathway_to_gene_def kegg_relations_def kegg_link_def
      kegg_general_def iterate_def and_then_def)

section \<open>The raw client and the cache build\<close>


text \<open>
  C3. What the code does when the drug cache is built twice: each run of \<^verbatim>\<open>load\<close>
  calls \<^verbatim>\<open>_kegg_general\<close> with no argument and raises \<^verbatim>\<open>TypeError\<close>, so the two runs
  add two calls that Python cannot bind and no fetch at all, not exactly one. Nothing
  remembers an earlier run: the ChEBI conversion table, whose call does bind, asks the
  raw client again on the second build, and that build raises as the first did.
\<close>

theorem two_builds_issue_no_fetch:
  "load (\<lambda>v. case v of PStr s \<Rightarrow> [s] | PList xs \<Rightarrow> xs | _ \<Rightarrow> []) Drug [] st = (Inl TypeError, st\<lparr>requests := requests st @ [[]]\<rparr>)
   \<and> load (\<lambda>v. case v of PStr s \<Rightarrow> [s] | PList xs \<Rightarrow> xs | _ \<Rightarrow> []) Drug [] (st\<lparr>requests := requests st @ [[]]\<rparr>)
     = (Inl TypeError, st\<lparr>requests := requests st @ [[], []]\<rparr>)
   \<and> bound_calls (st\<lparr>requests := requests st @ [[], []]\<rparr>) = bound_calls st
   \<and> fst (download_table KeggToChebi [] st) = Inl TypeError
   \<and> bound_calls (snd (download_table KeggToChebi [] (snd (download_table KeggToChebi [] st))))
     = bound_calls st @ [[PStr ''conv'', PStr ''chebi'', PStr ''drug''],
                         [PStr ''conv'', PStr ''chebi'', PStr ''drug'']]"
  by (simp add: load_def kegg_list_def kegg_list_args_def kegg_general_def bound_calls_def
      download_table_def kegg_conv_def iterate_def and_then_def)

text \<open>
  C6. What the code does when an entity cache is built: for the database \<^verbatim>\<open>drug\<close> the
  argument list of \<^verbatim>\<open>_kegg_list\<close> is empty, without the \<^verbatim>\<open>list\<close> operation and without
  the kind, whatever \<^verbatim>\<open>to_list\<close> returns; so \<^verbatim>\<open>load\<close> of the drug cache calls
  \<^verbatim>\<open>_kegg_general\<close> with no argument and raises \<^verbatim>\<open>TypeError\<close>.
\<close>

theorem kegg_list_drops_list_operation:
  "kegg_list_args to_list ''drug'' option organism = []
   \<and> load (\<lambda>v. case v of PStr s \<Rightarrow> [s] | PList xs \<Rightarrow> xs | _ \<Rightarrow> []) Drug [] st = (Inl TypeError, st\<lparr>requests := requests st @ [[]]\<rparr>)"
  by (simp add: load_def kegg_list_def kegg_list_args_def kegg_general_def)

section \<open>Conversion tables\<close>

text \<open>
  C7, as the code has it. For the table that the loop of \<^verbatim>\<open>_kegg_conv\<close> builds from
  the rows, \<^verbatim>\<open>get(index)\<close> is the set of all target references of the rows whose
  source reference, after the optional prefix stripping, equals the index, when there
  is such a row; for an index with no such row it is \<^verbatim>\<open>None\<close>.
\<close>

theorem conversion_get_accumulates:
  assumes "conv_loop source_split target_split rows Map.empty = Inr table"
  shows "ConversionTable_get table index =
     (if \<exists>source target. [source, target] \<in> set rows \<and> split_ref source_split source = Inr index
      then Some {target'. \<exists>source target. [source, target] \<in> set rows \<and>
                   split_ref source_split source = Inr index \<and>
                   split_ref target_split target = Inr target'}
      else None)"
  using conv_loop_lookup [OF assms, of index]
  by (auto simp: ConversionTable_get_def split: option.splits)

theorem conversion_get_accumulates_witness:
  "\<exists>table. conv_loop False True
       [[''hsa:1'', ''up:P1''], [''hsa:1'', ''up:P2'']] Map.empty = Inr table
     \<and> ConversionTable_get table ''hsa:1'' = Some {''P1'', ''P2''}
     \<and> ConversionTable_get table ''hsa:2'' = None"
proof -
  let ?rows = "[[''hsa:1'', ''up:P1''], [''hsa:1'', ''up:P2'']]"
  have s: "split_ref False source = Inr source" for source
    by (simp add: split_ref_def)
  have t1: "split_ref True ''up:P1'' = Inr ''P1''"
    and t2: "split_ref True ''up:P2'' = Inr ''P2''"
    by (simp_all add: split_ref_def item_def)
  obtain table where t: "conv_loop False True ?rows Map.empty = Inr table"
    by (simp add: and_then_def s t1 t2)
  have a: "ConversionTable_get table ''hsa:1'' = Some {''P1'', ''P2''}"
    unfolding conversion_get_accumulates [OF t, of "''hsa:1''"] s
    using t1 t2 by auto
  have b: "ConversionTable_get table ''hsa:2'' = None"
    unfolding conversion_get_accumulates [OF t, of "''hsa:2''"] s
    by auto
  from t a b show ?thesis by blast
qed

text \<open>
  C7, the claim refuted: in the table built from one row for \<^verbatim>\<open>hsa:7157\<close>, the
  identifier \<^verbatim>\<open>hsa:11\<close> is absent and \<^verbatim>\<open>get\<close> returns \<^verbatim>\<open>None\<close> for it, not the empty
  set.
\<close>

theorem conversion_get_absent_is_none:
  "(case conv_loop False True [[''hsa:7157'', ''ncbi-geneid:7157'']] Map.empty of
      Inl e \<Rightarrow> False
    | Inr table \<Rightarrow>
        ConversionTable_get table ''hsa:7157'' = Some {''7157''}
        \<and> ConversionTable_get table ''hsa:11'' = None
        \<and> ConversionTable_get table ''hsa:11'' \<noteq> Some {})"
  by (simp add: and_then_def split_ref_def item_def ConversionTable_get_def)

section \<open>Drug interactions\<close>

text \<open>
  C4. What the code does at the dispatch: with two drugs given and \<^verbatim>\<open>join\<close> true, line
  162 passes the keywords \<^verbatim>\<open>join\<close> and \<^verbatim>\<open>asynchronous\<close>, which \<^verbatim>\<open>_kegg_ddi\<close> does not
  accept, so the call raises \<^verbatim>\<open>TypeError\<close> and no request is made. \<^verbatim>\<open>_kegg_ddi\<close> itself,
  called synchronously, joins the identifiers with \<^verbatim>\<open>+\<close> into one request in every
  mode: it has no mode with one request per identifier.
\<close>

theorem ddi_dispatch_rejects_keywords:
  "ddi_entries to_list run_async (PList [''D00564'', ''D00100'']) True False st = (Inl TypeError, st)
   \<and> kegg_ddi (\<lambda>v. case v of PStr s \<Rightarrow> [s] | PList xs \<Rightarrow> xs | _ \<Rightarrow> []) run_async (PList [''D00564'', ''D00100'']) False st =
       (Inl TypeError, st\<lparr>requests := requests st @ [[PStr ''ddi'', PStr ''D00564+D00100'']]\<rparr>)"
  by (simp add: ddi_entries_def truthy_def kegg_ddi_call_def kegg_ddi_def kegg_ddi_sync_def
      kegg_general_def iterate_def and_then_def)

text \<open>
  C5. What the code does with the two interaction rows of the claim: the first row ends
  the loop with \<^verbatim>\<open>NameError\<close> and no profile is produced; the loop returns only for an
  empty list of rows. The labels alone are read as the claim says: \<^verbatim>\<open>CI,P\<close> sets both
  flags and the empty field sets neither.
\<close>

theorem ddi_rows_raise_name_error:
  "ddi_loop [[''dr:D001'', ''dr:D002'', ''CI,P''], [''dr:D001'', ''cpd:C003'', []]] Map.empty
     = Inl NameError
   \<and> (ddi_loop rows profiles = Inr result) = (rows = [] \<and> result = profiles)
   \<and> labels_of ''CI,P'' = (True, True) \<and> labels_of [] = (False, False)"
proof -
  have "ddi_loop [[''dr:D001'', ''dr:D002'', ''CI,P''], [''dr:D001'', ''cpd:C003'', []]] Map.empty
          = Inl NameError"
    by (simp add: ddi_entry_def partner_of_def partner_type_def and_then_def item_def)
  moreover have "(ddi_loop rows profiles = Inr result) = (rows = [] \<and> result = profiles)"
    by (cases rows) (auto simp: and_then_Inr ddi_entry_def partner_of_never_returns)
  moreover have "labels_of ''CI,P'' = (True, True)" and "labels_of [] = (False, False)"
    by (simp_all add: labels_of_def)
  ultimately show ?thesis by blast
qed

text \<open>
  C10. What the code does when no drugs are given (\<^verbatim>\<open>None\<close> or an empty list): the join
  value of line 159 is falsy and the asynchronous value of line 160 is true, whatever
  the caller passed, but line 161 then raises \<^verbatim>\<open>AttributeError\<close>, so \<^verbatim>\<open>_kegg_ddi\<close> is
  not called, no request is made and no code path is selected.
\<close>

theorem no_drugs_raises_before_dispatch:
  "ddi_entries to_list run_async PNone join asynchronous st = (Inl AttributeError, st)
   \<and> ddi_entries to_list run_async (PList []) join asynchronous st = (Inl AttributeError, st)
   \<and> \<not> truthy (join_flag join PNone) \<and> \<not> truthy (join_flag join (PList []))
   \<and> asynchronous_flag PNone asynchronous \<and> asynchronous_flag (PList []) asynchronous"
  by (simp add: ddi_entries_def truthy_def join_flag_def asynchronous_flag_def)

section \<open>Pathway keys\<close>

text \<open>
  C9. Pathway key normalization: \<^verbatim>\<open>_Pathway.proc_key\<close> extracts the numeric substring
  of the raw identifier, that is the first run of digits (no digit before it, no digit
  right after it), and prefixes it with \<^verbatim>\<open>map\<close>, whatever the other fields of the row
  are; so \<^verbatim>\<open>path:hsa04110\<close> gives the cache key \<^verbatim>\<open>map04110\<close>. An identifier without
  a digit gives no key but \<^verbatim>\<open>AttributeError\<close>.
\<close>

theorem pathway_key_normalization:
  assumes "\<forall>c \<in> set pre. \<not> is_digit c" and "d \<noteq> []" and "\<forall>c \<in> set d. is_digit c"
    and "post = [] \<or> \<not> is_digit (hd post)"
  shows "proc_key Pathway ((pre @ d @ post) # others) = Inr (''map'' @ d)
       \<and> proc_key Pathway (''path:hsa04110'' # others) = Inr ''map04110''
       \<and> proc_key Pathway (pre # others) = Inl AttributeError"
  using re_pathway_search_run [OF assms] re_pathway_search_no_digit [OF assms(1)]
  by (simp add: and_then_def item_def re_pathway_search_def is_digit_def)

theorem pathway_key_normalization_witness:
  "proc_key Pathway [''path:hsa04110'', ''Cell cycle''] = Inr ''map04110''
   \<and> proc_key Pathway [''path:map1a22''] = Inr ''map1''
   \<and> proc_key Pathway [''path:map''] = Inl AttributeError"
proof -
  have a: "proc_key Pathway ((''path:hsa'' @ ''04110'' @ []) # [''Cell cycle'']) = Inr (''map'' @ ''04110'')"
    using pathway_key_normalization [of "''path:hsa''" "''04110''" "[]" "[''Cell cycle'']"]
    by (simp add: is_digit_def)
  have b: "proc_key Pathway ((''path:map'' @ ''1'' @ ''a22'') # []) = Inr (''map'' @ ''1'')"
    and c: "proc_key Pathway (''path:map'' # []) = Inl AttributeError"
    using pathway_key_normalization [of "''path:map''" "''1''" "''a22''" "[]"]
    by (simp_all add: is_digit_def)
  from a b c show ?thesis by simp
qed

end
